theory Spec2Isabelle
  imports Complex_Main
begin

section \<open>Numbers and vectors\<close>

text \<open>
  The program computes in C++ \<^verbatim>\<open>float\<close>. Throughout this development a \<^verbatim>\<open>float\<close> is
  idealised as a \<^typ>\<open>real\<close>: rounding, overflow to infinity and NaN are not modelled.
  Where the quotient of the program is a division by zero, the theorems below carry the
  hypothesis that excludes it, since HOL's \<open>x / 0 = 0\<close> is not what the program computes.
\<close>

text \<open>
  Modelled from the spec: the header \<^verbatim>\<open>framework.h\<close> (types \<^verbatim>\<open>vec2\<close>, \<^verbatim>\<open>vec3\<close>, \<^verbatim>\<open>vec4\<close>,
  \<^verbatim>\<open>mat4\<close> and their operators) is not part of the sources. The vectors are tuples of
  floats with componentwise sum and difference, product and quotient by a scalar, the
  Euclidean dot product, length and the right-handed cross product, as the spec's formulas
  use them. A constructor without arguments gives the zero vector. The two products of a
  vector and a float, \<^verbatim>\<open>a * v\<close> and \<^verbatim>\<open>v * a\<close>, are both \<open>a *\<^sub>R v\<close>: each component
  of \<open>v\<close> times \<open>a\<close>.
\<close>

datatype vec2 = vec2 (x: real) (y: real)

datatype vec3 = vec3 (x: real) (y: real) (z: real)

datatype vec4 = vec4 (x: real) (y: real) (z: real) (w: real)

instantiation vec2 :: "{zero, plus, minus, scaleR}"
begin
definition zero_vec2 :: vec2 where
  "zero_vec2 = vec2 0 0"
definition plus_vec2 :: "vec2 \<Rightarrow> vec2 \<Rightarrow> vec2" where
  "plus_vec2 a b = vec2 (vec2.x a + vec2.x b) (vec2.y a + vec2.y b)"
definition minus_vec2 :: "vec2 \<Rightarrow> vec2 \<Rightarrow> vec2" where
  "minus_vec2 a b = vec2 (vec2.x a - vec2.x b) (vec2.y a - vec2.y b)"
definition scaleR_vec2 :: "real \<Rightarrow> vec2 \<Rightarrow> vec2" where
  "scaleR_vec2 c a = vec2 (vec2.x a * c) (vec2.y a * c)"
instance ..
end

text \<open>\<^verbatim>\<open>vec2::operator/(float)\<close>.\<close>

definition vec2_div :: "vec2 \<Rightarrow> real \<Rightarrow> vec2" where
  "vec2_div a c = vec2 (vec2.x a / c) (vec2.y a / c)"

instantiation vec3 :: "{zero, plus, minus, uminus, scaleR}"
begin
definition uminus_vec3 :: "vec3 \<Rightarrow> vec3" where
  "uminus_vec3 a = vec3 (- vec3.x a) (- vec3.y a) (- vec3.z a)"
definition zero_vec3 :: vec3 where
  "zero_vec3 = vec3 0 0 0"
definition plus_vec3 :: "vec3 \<Rightarrow> vec3 \<Rightarrow> vec3" where
  "plus_vec3 a b = vec3 (vec3.x a + vec3.x b) (vec3.y a + vec3.y b) (vec3.z a + vec3.z b)"
definition minus_vec3 :: "vec3 \<Rightarrow> vec3 \<Rightarrow> vec3" where
  "minus_vec3 a b = vec3 (vec3.x a - vec3.x b) (vec3.y a - vec3.y b) (vec3.z a - vec3.z b)"
definition scaleR_vec3 :: "real \<Rightarrow> vec3 \<Rightarrow> vec3" where
  "scaleR_vec3 c a = vec3 (vec3.x a * c) (vec3.y a * c) (vec3.z a * c)"
instance ..
end

text \<open>\<^verbatim>\<open>vec3::operator/(float)\<close>, \<^verbatim>\<open>dot\<close>, \<^verbatim>\<open>length\<close>, \<^verbatim>\<open>normalize\<close> and \<^verbatim>\<open>cross\<close>.\<close>

definition vec3_div :: "vec3 \<Rightarrow> real \<Rightarrow> vec3" where
  "vec3_div a c = vec3 (vec3.x a / c) (vec3.y a / c) (vec3.z a / c)"

definition dot :: "vec3 \<Rightarrow> vec3 \<Rightarrow> real" where
  "dot a b = vec3.x a * vec3.x b + vec3.y a * vec3.y b + vec3.z a * vec3.z b"

definition length_vec3 :: "vec3 \<Rightarrow> real" where
  "length_vec3 a = sqrt (dot a a)"

definition normalize :: "vec3 \<Rightarrow> vec3" where
  "normalize a = (1 / length_vec3 a) *\<^sub>R a"

definition cross :: "vec3 \<Rightarrow> vec3 \<Rightarrow> vec3" where
  "cross a b = vec3 (vec3.y a * vec3.z b - vec3.z a * vec3.y b)
                    (vec3.z a * vec3.x b - vec3.x a * vec3.z b)
                    (vec3.x a * vec3.y b - vec3.y a * vec3.x b)"

instantiation vec4 :: "{plus, scaleR}"
begin
definition plus_vec4 :: "vec4 \<Rightarrow> vec4 \<Rightarrow> vec4" where
  "plus_vec4 a b = vec4 (vec4.x a + vec4.x b) (vec4.y a + vec4.y b) (vec4.z a + vec4.z b)
                        (vec4.w a + vec4.w b)"
definition scaleR_vec4 :: "real \<Rightarrow> vec4 \<Rightarrow> vec4" where
  "scaleR_vec4 c a = vec4 (vec4.x a * c) (vec4.y a * c) (vec4.z a * c) (vec4.w a * c)"
instance ..
end

text \<open>
  Modelled from the spec: \<^verbatim>\<open>mat4\<close> of \<^verbatim>\<open>framework.h\<close>, a matrix of four rows. A vector is a
  row and stands on the left of a matrix (\<^verbatim>\<open>vec4 * mat4\<close>), so the model transform
  \<^verbatim>\<open>ScaleMatrix(s) * RotationMatrix(a, w) * TranslateMatrix(t)\<close> scales first, then rotates,
  then translates.
\<close>

datatype mat4 = mat4 (row0: vec4) (row1: vec4) (row2: vec4) (row3: vec4)

definition vec4_mat4 :: "vec4 \<Rightarrow> mat4 \<Rightarrow> vec4" where
  "vec4_mat4 a T =
     vec4.x a *\<^sub>R row0 T + vec4.y a *\<^sub>R row1 T + vec4.z a *\<^sub>R row2 T + vec4.w a *\<^sub>R row3 T"

definition mat4_mul :: "mat4 \<Rightarrow> mat4 \<Rightarrow> mat4" where
  "mat4_mul P T =
     mat4 (vec4_mat4 (row0 P) T) (vec4_mat4 (row1 P) T) (vec4_mat4 (row2 P) T)
          (vec4_mat4 (row3 P) T)"

definition TranslateMatrix :: "vec3 \<Rightarrow> mat4" where
  "TranslateMatrix t =
     mat4 (vec4 1 0 0 0) (vec4 0 1 0 0) (vec4 0 0 1 0) (vec4 (vec3.x t) (vec3.y t) (vec3.z t) 1)"

definition ScaleMatrix :: "vec3 \<Rightarrow> mat4" where
  "ScaleMatrix c =
     mat4 (vec4 (vec3.x c) 0 0 0) (vec4 0 (vec3.y c) 0 0) (vec4 0 0 (vec3.z c) 0) (vec4 0 0 0 1)"

text \<open>
  Modelled from the spec: \<^verbatim>\<open>RotationMatrix(angle, w)\<close> of \<^verbatim>\<open>framework.h\<close>, the rotation by
  \<open>angle\<close> about the axis \<open>w\<close> (Rodrigues' formula on the normalised axis). The operations
  below take the rotation as a parameter, so that what is proved of them holds for any
  \<^verbatim>\<open>RotationMatrix\<close>; this one is the instance at which they are run.
\<close>

definition RotationMatrix :: "real \<Rightarrow> vec3 \<Rightarrow> mat4" where
  "RotationMatrix angle axis =
     (let c = cos angle; sn = sin angle; u = normalize axis;
          ux = vec3.x u; uy = vec3.y u; uz = vec3.z u
      in mat4 (vec4 (c * (1 - ux * ux) + ux * ux) (ux * uy * (1 - c) + uz * sn)
                    (ux * uz * (1 - c) - uy * sn) 0)
              (vec4 (ux * uy * (1 - c) - uz * sn) (c * (1 - uy * uy) + uy * uy)
                    (uy * uz * (1 - c) + ux * sn) 0)
              (vec4 (ux * uz * (1 - c) + uy * sn) (uy * uz * (1 - c) - ux * sn)
                    (c * (1 - uz * uz) + uz * uz) 0)
              (vec4 0 0 0 1))"

section \<open>Dual numbers\<close>

text \<open>
  \<^verbatim>\<open>template<class T> struct Dnum\<close>, at the only instance the program uses,
  \<^verbatim>\<open>Dnum2 = Dnum<vec2>\<close>: the function value \<open>f\<close> and the derivatives \<open>d\<close>.
\<close>

datatype Dnum2 = Dnum (f: real) (d: vec2)

text \<open>
  The constructor's default arguments \<^verbatim>\<open>Dnum(float f0 = 0, T d0 = T(0))\<close>: a float
  converts to the dual number with derivative \<^verbatim>\<open>vec2(0)\<close>, which is the zero vector.
\<close>

definition Dnum_of :: "real \<Rightarrow> Dnum2" where
  "Dnum_of f0 = Dnum f0 (vec2 0 0)"

definition Dnum_add :: "Dnum2 \<Rightarrow> Dnum2 \<Rightarrow> Dnum2" where
  "Dnum_add l r = Dnum (f l + f r) (d l + d r)"

definition Dnum_sub :: "Dnum2 \<Rightarrow> Dnum2 \<Rightarrow> Dnum2" where
  "Dnum_sub l r = Dnum (f l - f r) (d l - d r)"

definition Dnum_mul :: "Dnum2 \<Rightarrow> Dnum2 \<Rightarrow> Dnum2" where
  "Dnum_mul l r = Dnum (f l * f r) (f l *\<^sub>R d r + f r *\<^sub>R d l)"

definition Dnum_div :: "Dnum2 \<Rightarrow> Dnum2 \<Rightarrow> Dnum2" where
  "Dnum_div l r =
     Dnum (f l / f r) (vec2_div (vec2_div (f r *\<^sub>R d l - f l *\<^sub>R d r) (f r)) (f r))"

section \<open>Elementary functions\<close>

text \<open>
  The functions of the C library: \<^verbatim>\<open>expf\<close>, \<^verbatim>\<open>sinf\<close>, \<^verbatim>\<open>cosf\<close>, \<^verbatim>\<open>sinh\<close>, \<^verbatim>\<open>cosh\<close>
  are \<^const>\<open>exp\<close>, \<^const>\<open>sin\<close>, \<^const>\<open>cos\<close>, \<^const>\<open>sinh\<close>, \<^const>\<open>cosh\<close> on the reals.
  \<^verbatim>\<open>logf\<close> is \<^const>\<open>ln\<close>; they agree on a positive argument, which is where the theorems
  below use it.
\<close>


definition Cos :: "Dnum2 \<Rightarrow> Dnum2" where
  "Cos g = Dnum (cos (f g)) ((- sin (f g)) *\<^sub>R d g)"



section \<open>Parametric surfaces\<close>

record VertexData =
  position :: vec3
  normal :: vec3
  texcoord :: vec2

text \<open>
  The virtual method \<^verbatim>\<open>eval(U, V, X, Y, Z)\<close> of \<^verbatim>\<open>ParamSurface\<close>: it reads \<open>U\<close> and \<open>V\<close> and
  leaves its results in the references \<open>X\<close>, \<open>Y\<close>, \<open>Z\<close>, which the caller has constructed
  by default. A surface is the function from \<open>U\<close>, \<open>V\<close> and the three dual numbers passed
  in to the three dual numbers found there afterwards.
\<close>

type_synonym surface = "Dnum2 \<Rightarrow> Dnum2 \<Rightarrow> Dnum2 \<times> Dnum2 \<times> Dnum2 \<Rightarrow> Dnum2 \<times> Dnum2 \<times> Dnum2"

definition GenVertexData :: "surface \<Rightarrow> real \<Rightarrow> real \<Rightarrow> VertexData" where
  "GenVertexData eval u v =
     (let U = Dnum u (vec2 1 0); V = Dnum v (vec2 0 1);
          (X, Y, Z) = eval U V (Dnum_of 0, Dnum_of 0, Dnum_of 0);
          drdU = vec3 (vec2.x (d X)) (vec2.x (d Y)) (vec2.x (d Z));
          drdV = vec3 (vec2.y (d X)) (vec2.y (d Y)) (vec2.y (d Z))
      in \<lparr>position = vec3 (f X) (f Y) (f Z), normal = cross drdU drdV,
          texcoord = vec2 u v\<rparr>)"

text \<open>
  \<^verbatim>\<open>ParamSurface::create\<close>. The two counters are \<^verbatim>\<open>unsigned int\<close>, the arguments \<^verbatim>\<open>int\<close>:
  \<open>to_unsigned\<close> is the conversion (32 bits). \<open>vtxData\<close> is the vector of vertices that
  the method hands to the vertex buffer; the calls of the graphics library are left out.
  The inner loop runs \<open>j\<close> from 0 to \<open>M\<close> inclusive, the outer one \<open>i\<close> from 0 below \<open>N\<close>.
\<close>

record ParamSurface =
  nVtxPerStrip :: int
  nStrips :: int
  vtxData :: "VertexData list"

definition to_unsigned :: "int \<Rightarrow> int" where
  "to_unsigned k = k mod 2 ^ 32"

function create_j :: "surface \<Rightarrow> int \<Rightarrow> int \<Rightarrow> int \<Rightarrow> int \<Rightarrow> VertexData list \<Rightarrow> VertexData list" where
  "create_j eval N M i j vtx =
     (if j \<le> M
      then create_j eval N M i (j + 1)
             (vtx @ [GenVertexData eval (real_of_int j / real_of_int M) (real_of_int i / real_of_int N),
                     GenVertexData eval (real_of_int j / real_of_int M) (real_of_int (i + 1) / real_of_int N)])
      else vtx)"
  by pat_completeness auto
termination
  by (relation "measure (\<lambda>(eval, N, M, i, j, vtx). nat (M + 1 - j))") auto

function create_i :: "surface \<Rightarrow> int \<Rightarrow> int \<Rightarrow> int \<Rightarrow> VertexData list \<Rightarrow> VertexData list" where
  "create_i eval N M i vtx =
     (if i < N then create_i eval N M (i + 1) (create_j eval N M i 0 vtx) else vtx)"
  by pat_completeness auto
termination
  by (relation "measure (\<lambda>(eval, N, M, i, vtx). nat (N - i))") auto

text \<open>The two functions are unfolded by hand, one round at a time.\<close>

declare create_j.simps [simp del] create_i.simps [simp del]

definition create :: "surface \<Rightarrow> int \<Rightarrow> int \<Rightarrow> ParamSurface" where
  "create eval N M =
     \<lparr>nVtxPerStrip = to_unsigned ((M + 1) * 2), nStrips = to_unsigned N,
      vtxData = create_i eval N M 0 []\<rparr>"

text \<open>
  \<^verbatim>\<open>ParamSurface::Draw\<close> draws strip \<open>i\<close> from the \<open>nVtxPerStrip\<close> vertices that start at
  index \<open>i * nVtxPerStrip\<close> of the buffer.
\<close>

definition strip :: "ParamSurface \<Rightarrow> nat \<Rightarrow> VertexData list" where
  "strip ps i = take (nat (nVtxPerStrip ps)) (drop (i * nat (nVtxPerStrip ps)) (vtxData ps))"

text \<open>
  What the spec says strip \<open>i\<close> is: for \<open>j\<close> from 0 to \<open>M\<close>, the sample at
  \<open>(j / M, i / N)\<close> and then the sample at \<open>(j / M, (i + 1) / N)\<close>.
\<close>

definition strip_spec :: "surface \<Rightarrow> int \<Rightarrow> int \<Rightarrow> int \<Rightarrow> VertexData list" where
  "strip_spec eval N M i =
     concat (map (\<lambda>j. [GenVertexData eval (real_of_int j / real_of_int M) (real_of_int i / real_of_int N),
                        GenVertexData eval (real_of_int j / real_of_int M) (real_of_int (i + 1) / real_of_int N)])
              [0..M])"

section \<open>The noise surface\<close>

text \<open>
  \<^verbatim>\<open>class Noise\<close>: the tables \<open>A\<close> and \<open>B\<close> of \<open>n \<times> n\<close> dual numbers, each constructed by
  default as the dual number 0. \<^verbatim>\<open>rand()\<close> of the C library is a sequence of integers:
  \<open>rnd k\<close> is what its \<open>k\<close>-th call returns, and the number of calls made so far is passed
  along. \<^verbatim>\<open>RAND_MAX\<close> is a parameter. The nested \<^verbatim>\<open>for\<close> statements over \<open>0, \<dots>, n - 1\<close>
  are folds over \<open>[0..<n]\<close>, the outer index first.
\<close>

definition n :: nat where
  "n = 3"

record Noise =
  A :: "nat \<Rightarrow> nat \<Rightarrow> Dnum2"
  B :: "nat \<Rightarrow> nat \<Rightarrow> Dnum2"

definition Noise_new :: Noise where
  "Noise_new = \<lparr>A = (\<lambda>i j. Dnum_of 0), B = (\<lambda>i j. Dnum_of 0)\<rparr>"

definition initA_body :: "int \<Rightarrow> (nat \<Rightarrow> int) \<Rightarrow> nat \<Rightarrow> nat \<Rightarrow> Noise \<times> nat \<Rightarrow> Noise \<times> nat" where
  "initA_body RAND_MAX rnd i j st =
     (let (ns, k) = st in
      if i = 0 \<and> j = 0
      then (ns\<lparr>A := (A ns)(i := (A ns i)(j := Dnum_of 0))\<rparr>, k)
      else (ns\<lparr>A := (A ns)(i := (A ns i)(j := Dnum_of (1 / sqrt (real (i * i + j * j))))),
               B := (B ns)(i := (B ns i)(j := Dnum_of (real_of_int (rnd k) / real_of_int RAND_MAX)))\<rparr>,
            Suc k))"

definition initA :: "int \<Rightarrow> (nat \<Rightarrow> int) \<Rightarrow> Noise \<times> nat \<Rightarrow> Noise \<times> nat" where
  "initA RAND_MAX rnd st =
     fold (\<lambda>i. fold (\<lambda>j. initA_body RAND_MAX rnd i j) [0..<n]) [0..<n] st"

definition Noise_eval_body :: "Noise \<Rightarrow> Dnum2 \<Rightarrow> Dnum2 \<Rightarrow> nat \<Rightarrow> nat \<Rightarrow> Dnum2 \<Rightarrow> Dnum2" where
  "Noise_eval_body ns X Z i j Y =
     Dnum_add Y
       (Dnum_mul
          (Cos (Dnum_mul
                  (Dnum_mul
                     (Dnum_add (Dnum_add (Dnum_mul X (Dnum_of (real i))) (Dnum_mul Z (Dnum_of (real j))))
                        (B ns i j))
                     (Dnum_of pi))
                  (Dnum_of 2)))
          (A ns i j))"

definition Noise_eval :: "Noise \<Rightarrow> surface" where
  "Noise_eval ns U V XYZ =
     (let X = Dnum_sub U (Dnum_of 0.5);
          Z = Dnum_sub V (Dnum_of 0.5);
          Y = Dnum_of 0
      in (X, fold (\<lambda>i. fold (\<lambda>j. Noise_eval_body ns X Z i j) [0..<n]) [0..<n] Y, Z))"

text \<open>
  A run of \<^verbatim>\<open>rand()\<close> for \<^verbatim>\<open>RAND_MAX = 32767\<close>: every value lies between 0 and
  \<^verbatim>\<open>RAND_MAX\<close>, and the first one is \<^verbatim>\<open>RAND_MAX\<close>, which the C standard allows.
\<close>

definition rand_seq :: "nat \<Rightarrow> int" where
  "rand_seq k = (32767 + 16807 * int k) mod 32768"

section \<open>The tethered body\<close>

text \<open>
  \<^verbatim>\<open>struct Body : public Object\<close>. The first four fields are those of \<^verbatim>\<open>Object\<close> that the
  animation reads or writes; the pointers to the shader, material, texture and geometry
  are left out. \<open>m\<close> is the mass, \<open>g\<close> gravity, \<open>v\<close> the velocity, \<open>ro\<close> the drag
  coefficient, \<open>s\<close> the anchor of the spring, \<open>M\<close> and \<open>Minv\<close> the model matrix and its
  inverse, \<open>D\<close> the stiffness, \<open>l0\<close> the natural length, \<open>w\<close> the angular velocity and
  \<open>kappa\<close> the angular drag coefficient.
\<close>

record Body =
  scale :: vec3
  translation :: vec3
  rotationAxis :: vec3
  rotationAngle :: real
  m :: real
  g :: vec3
  v :: vec3
  ro :: real
  s :: vec3
  M :: mat4
  Minv :: mat4
  D :: real
  l0 :: real
  w :: vec3
  kappa :: real

text \<open>\<^verbatim>\<open>Object::SetModelingTransform(M, Minv)\<close>, called on the members \<open>M\<close> and \<open>Minv\<close>.\<close>

definition SetModelingTransform :: "(real \<Rightarrow> vec3 \<Rightarrow> mat4) \<Rightarrow> Body \<Rightarrow> Body" where
  "SetModelingTransform rot b =
     b\<lparr>M := mat4_mul (mat4_mul (ScaleMatrix (scale b)) (rot (rotationAngle b) (rotationAxis b)))
                (TranslateMatrix (translation b)),
       Minv := mat4_mul (mat4_mul (TranslateMatrix (- translation b))
                                  (rot (- rotationAngle b) (rotationAxis b)))
                (ScaleMatrix (vec3 (1 / vec3.x (scale b)) (1 / vec3.y (scale b))
                                   (1 / vec3.z (scale b))))\<rparr>"

text \<open>
  The point \<open>l\<close> of \<^verbatim>\<open>Body::Animate\<close>: the local point \<open>(0, -0.5, 0)\<close> in world space, by
  the model matrix that \<^verbatim>\<open>SetModelingTransform\<close> has just computed from the pose.
\<close>

definition tether_point :: "(real \<Rightarrow> vec3 \<Rightarrow> mat4) \<Rightarrow> Body \<Rightarrow> vec3" where
  "tether_point rot b =
     (let ll = vec4_mat4 (vec4 0 (- 0.5) 0 1) (M (SetModelingTransform rot b))
      in vec3 (vec4.x ll) (vec4.y ll) (vec4.z ll))"

text \<open>
  The force \<open>K\<close> of \<^verbatim>\<open>Body::Animate\<close>: declared without an initialiser, which is the zero
  vector, and assigned only when the spring is longer than its natural length.
\<close>

definition spring_force :: "Body \<Rightarrow> vec3 \<Rightarrow> vec3" where
  "spring_force b l =
     (if length_vec3 (s b - l) > l0 b
      then (length_vec3 (s b - l) - l0 b) *\<^sub>R (D b *\<^sub>R (s b - l))
      else 0)"

text \<open>
  \<^verbatim>\<open>Body::Animate(tstart, tend)\<close>. The global flag \<open>goon\<close>, false until a key is pressed,
  is an argument. The torque, a local variable \<open>M\<close> of the source that hides the member,
  is \<open>Mt\<close> here.
\<close>

definition Animate :: "(real \<Rightarrow> vec3 \<Rightarrow> mat4) \<Rightarrow> bool \<Rightarrow> real \<Rightarrow> real \<Rightarrow> Body \<Rightarrow> Body" where
  "Animate rot goon tstart tend b =
     (if \<not> goon then b
      else
        let b1 = SetModelingTransform rot b;
            l = tether_point rot b;
            dt = tend - tstart;
            b2 = b1\<lparr>translation := translation b1 + dt *\<^sub>R v b1\<rparr>;
            p = m b2 *\<^sub>R v b2;
            K = spring_force b2 l;
            F = m b2 *\<^sub>R g b2 + K - ro b2 *\<^sub>R v b2;
            p = p + dt *\<^sub>R F;
            b3 = b2\<lparr>v := vec3_div p (m b2)\<rparr>;
            I = m b3 * (vec3.x (scale b3) * vec3.x (scale b3) + vec3.y (scale b3) * vec3.y (scale b3)) / 12;
            L = I *\<^sub>R w b3;
            Mt = cross (l - translation b3) K - kappa b3 *\<^sub>R w b3;
            L = L + dt *\<^sub>R Mt;
            b4 = b3\<lparr>w := (1 / I) *\<^sub>R L\<rparr>
        in b4\<lparr>rotationAngle := rotationAngle b4 - dot (rotationAxis b4) (w b4) * dt\<rparr>)"

text \<open>
  The body that \<^verbatim>\<open>Scene::Build\<close> creates: the initialisers of the members, the rotation
  axis set by the constructor of \<^verbatim>\<open>Body\<close>, the translation and the scale set by
  \<^verbatim>\<open>Build\<close>. The two matrices are constructed by default; they are written here as the
  zero matrix, and no operation reads them before \<^verbatim>\<open>SetModelingTransform\<close> has set them.
\<close>

definition cubeObject :: Body where
  "cubeObject =
     \<lparr>scale = vec3 1 1.5 0.5, translation = vec3 0 5 0, rotationAxis = vec3 0 0 1,
      rotationAngle = 0, m = 1, g = vec3 0 (- 5) 0, v = vec3 1 0 0, ro = 0.3,
      s = vec3 0 5 0,
      M = mat4 (vec4 0 0 0 0) (vec4 0 0 0 0) (vec4 0 0 0 0) (vec4 0 0 0 0),
      Minv = mat4 (vec4 0 0 0 0) (vec4 0 0 0 0) (vec4 0 0 0 0) (vec4 0 0 0 0),
      D = 1, l0 = 3, w = vec3 0 0 0, kappa = 0.3\<rparr>"

section \<open>Arithmetic of dual numbers\<close>

text \<open>
  C3. The value of a sum, difference, product and quotient of dual numbers is the sum,
  difference, product and quotient of the values; the derivative follows the sum rule,
  the product rule \<open>a.f * b.d + a.d * b.f\<close> and, for a divisor of nonzero value, the
  quotient rule \<open>(b.f * a.d - b.d * a.f) / b.f\<^sup>2\<close>.
\<close>

theorem Dnum_arith:
  "f (Dnum_add a b) = f a + f b \<and> d (Dnum_add a b) = d a + d b \<and>
   f (Dnum_sub a b) = f a - f b \<and> d (Dnum_sub a b) = d a - d b \<and>
   f (Dnum_mul a b) = f a * f b \<and> d (Dnum_mul a b) = f a *\<^sub>R d b + f b *\<^sub>R d a \<and>
   f (Dnum_div a b) = f a / f b \<and>
   (f b \<noteq> 0 \<longrightarrow> d (Dnum_div a b) = vec2_div (f b *\<^sub>R d a - f a *\<^sub>R d b) ((f b)\<^sup>2))"
  by (simp add: Dnum_add_def Dnum_sub_def Dnum_mul_def Dnum_div_def vec2_div_def
      power2_eq_square)

theorem Dnum_arith_witness:
  "f (Dnum_div (Dnum 6 (vec2 1 0)) (Dnum 2 (vec2 0 1))) = 3 \<and>
   d (Dnum_div (Dnum 6 (vec2 1 0)) (Dnum 2 (vec2 0 1))) = vec2 (1 / 2) (- 3 / 2)"
  using Dnum_arith [of "Dnum 6 (vec2 1 0)" "Dnum 2 (vec2 0 1)"]
  by (simp add: vec2_div_def minus_vec2_def scaleR_vec2_def)

section \<open>The chain rule of the elementary functions\<close>






















section \<open>The noise surface and the surface evaluator\<close>

lemma upt_n: "[0..<n] = [0, 1, 2]"
  by (simp add: n_def numeral_3_eq_3 upt_rec)

lemma initA_unfold:
  "initA RM rnd st =
     initA_body RM rnd 2 2 (initA_body RM rnd 2 1 (initA_body RM rnd 2 0
    (initA_body RM rnd 1 2 (initA_body RM rnd 1 1 (initA_body RM rnd 1 0
    (initA_body RM rnd 0 2 (initA_body RM rnd 0 1 (initA_body RM rnd 0 0 st))))))))"
  by (simp add: initA_def upt_n)

lemma lt3: "i < (3::nat) \<Longrightarrow> i = 0 \<or> i = 1 \<or> i = 2"
  by arith

lemma initA_A:
  assumes "i < 3" and "j < 3"
  shows "A (fst (initA RM rnd (Noise_new, k))) i j =
     Dnum_of (if i = 0 \<and> j = 0 then 0 else 1 / sqrt (real (i * i + j * j)))"
  using lt3 [OF assms(1)] lt3 [OF assms(2)]
  by (elim disjE; simp add: initA_unfold initA_body_def Noise_new_def)

lemma initA_B:
  assumes "i < 3" and "j < 3"
  shows "B (fst (initA RM rnd (Noise_new, k))) i j =
     (if i = 0 \<and> j = 0 then Dnum_of 0
      else Dnum_of (real_of_int (rnd (k + 3 * i + j - 1)) / real_of_int RM))"
  using lt3 [OF assms(1)] lt3 [OF assms(2)]
  by (elim disjE; simp add: initA_unfold initA_body_def Noise_new_def eval_nat_numeral)

lemma Noise_eval_unfold:
  "Noise_eval ns U V XYZ =
    (let X = Dnum_sub U (Dnum_of 0.5); Z = Dnum_sub V (Dnum_of 0.5) in
     (X, Noise_eval_body ns X Z 2 2 (Noise_eval_body ns X Z 2 1 (Noise_eval_body ns X Z 2 0
        (Noise_eval_body ns X Z 1 2 (Noise_eval_body ns X Z 1 1 (Noise_eval_body ns X Z 1 0
        (Noise_eval_body ns X Z 0 2 (Noise_eval_body ns X Z 0 1 (Noise_eval_body ns X Z 0 0
        (Dnum_of 0))))))))), Z))"
  by (simp add: Noise_eval_def upt_n Let_def)

lemma f_Noise_eval_body:
  "f (Noise_eval_body ns X Z i j Y) =
     f Y + f (A ns i j) * cos (2 * pi * (real i * f X + real j * f Z + f (B ns i j)))"
  by (simp add: Noise_eval_body_def Dnum_add_def Dnum_mul_def Cos_def Dnum_of_def mult_ac)

lemma sum3: "(\<Sum>i<n. h i) = h 0 + h 1 + h 2" for h :: "nat \<Rightarrow> real"
  by (simp add: n_def numeral_3_eq_3 numeral_2_eq_2)

lemma Noise_eval_f:
  "Noise_eval ns U V XYZ = (X, Y, Z) \<Longrightarrow>
   f X = f U - 0.5 \<and> f Z = f V - 0.5 \<and>
   f Y = (\<Sum>i<n. \<Sum>j<n. f (A ns i j) *
            cos (2 * pi * (real i * (f U - 0.5) + real j * (f V - 0.5) + f (B ns i j))))"
  by (auto simp add: Noise_eval_unfold Let_def f_Noise_eval_body sum3 Dnum_sub_def Dnum_of_def)


lemma rand_seq_range: "\<forall>k. 0 \<le> rand_seq k \<and> rand_seq k \<le> 32767"
proof (intro allI conjI)
  fix k
  show "0 \<le> rand_seq k"
    by (simp add: rand_seq_def)
  have "rand_seq k < 32768"
    unfolding rand_seq_def by (rule pos_mod_bound) simp
  then show "rand_seq k \<le> 32767"
    by simp
qed

lemma initA_B_range:
  assumes "0 < RM" and "\<forall>k. 0 \<le> rnd k \<and> rnd k \<le> RM" and "i < 3" and "j < 3"
  shows "0 \<le> f (B (fst (initA RM rnd (Noise_new, k0))) i j) \<and>
         f (B (fst (initA RM rnd (Noise_new, k0))) i j) \<le> 1"
  using assms(1,2) by (simp add: initA_B [OF assms(3,4)] Dnum_of_def)

text \<open>
  C7, amended. For the tables that \<open>initA\<close> fills from any run of \<^verbatim>\<open>rand()\<close> with values
  between 0 and \<^verbatim>\<open>RAND_MAX\<close>, the noise surface returns \<open>X = u - 0.5\<close>, \<open>Z = v - 0.5\<close>
  and \<open>Y\<close> the sum over the \<open>3 \<times> 3\<close> indices of
  \<open>A i j * cos (2 * pi * (i * (u - 0.5) + j * (v - 0.5) + B i j))\<close>, where \<open>A 0 0 = 0\<close>,
  \<open>A i j = 1 / sqrt (i\<^sup>2 + j\<^sup>2)\<close> elsewhere, and every phase \<open>B i j\<close> lies in the closed
  interval from 0 to 1.
\<close>

theorem Noise_terrain:
  assumes "0 < RM" and "\<forall>k. 0 \<le> rnd k \<and> rnd k \<le> RM"
    and "ns = fst (initA RM rnd (Noise_new, k0))"
    and "Noise_eval ns U V XYZ = (X, Y, Z)"
  shows "f X = f U - 0.5 \<and> f Z = f V - 0.5 \<and>
     f Y = (\<Sum>i<n. \<Sum>j<n. f (A ns i j) *
              cos (2 * pi * (real i * (f U - 0.5) + real j * (f V - 0.5) + f (B ns i j)))) \<and>
     n = 3 \<and>
     (\<forall>i<n. \<forall>j<n.
        f (A ns i j) = (if i = 0 \<and> j = 0 then 0 else 1 / sqrt (real (i\<^sup>2 + j\<^sup>2))) \<and>
        0 \<le> f (B ns i j) \<and> f (B ns i j) \<le> 1)"
proof -
  have tables: "\<forall>i<n. \<forall>j<n.
        f (A ns i j) = (if i = 0 \<and> j = 0 then 0 else 1 / sqrt (real (i\<^sup>2 + j\<^sup>2))) \<and>
        0 \<le> f (B ns i j) \<and> f (B ns i j) \<le> 1"
  proof (intro allI impI)
    fix i j
    assume "i < n" and "j < n"
    then have i3: "i < 3" and j3: "j < 3"
      by (simp_all add: n_def)
    have "f (A ns i j) = (if i = 0 \<and> j = 0 then 0 else 1 / sqrt (real (i\<^sup>2 + j\<^sup>2)))"
      by (simp add: assms(3) initA_A [OF i3 j3] Dnum_of_def power2_eq_square)
    with initA_B_range [OF assms(1,2) i3 j3, of k0]
    show "f (A ns i j) = (if i = 0 \<and> j = 0 then 0 else 1 / sqrt (real (i\<^sup>2 + j\<^sup>2))) \<and>
        0 \<le> f (B ns i j) \<and> f (B ns i j) \<le> 1"
      by (simp only: assms(3))
  qed
  from Noise_eval_f [OF assms(4)] tables show ?thesis
    by (simp add: n_def)
qed

text \<open>
  C7 as stated puts every phase in the half-open interval \<open>[0, 1)\<close>. When \<^verbatim>\<open>rand()\<close>
  returns \<^verbatim>\<open>RAND_MAX\<close>, the phase \<^verbatim>\<open>(float)rand()/(float)RAND_MAX\<close> is 1.
\<close>

theorem Noise_phase_counterexample:
  "\<not> f (B (fst (initA 32767 rand_seq (Noise_new, 0))) 0 1) < 1"
  by (simp add: initA_B rand_seq_def Dnum_of_def)

lemma Noise_eval_flat:
  "Noise_eval Noise_new U V XYZ = (Dnum_sub U (Dnum_of 0.5), Dnum 0 (vec2 0 0), Dnum_sub V (Dnum_of 0.5))"
  by (simp add: Noise_eval_unfold Let_def Noise_eval_body_def Noise_new_def Dnum_of_def
      Dnum_add_def Dnum_mul_def Cos_def plus_vec2_def scaleR_vec2_def)

text \<open>
  C5. \<open>GenVertexData\<close> evaluates the surface at \<open>u\<close> with derivatives \<open>(1, 0)\<close> and \<open>v\<close>
  with derivatives \<open>(0, 1)\<close>; the position is made of the three values, the texture
  coordinate is \<open>(u, v)\<close>, and the normal is the cross product of the derivatives by \<open>u\<close>
  and the derivatives by \<open>v\<close> of the three coordinates, not normalised.
\<close>

theorem GenVertexData_sample:
  assumes "eval (Dnum u (vec2 1 0)) (Dnum t (vec2 0 1)) (Dnum_of 0, Dnum_of 0, Dnum_of 0) = (X, Y, Z)"
  shows "position (GenVertexData eval u t) = vec3 (f X) (f Y) (f Z) \<and>
     texcoord (GenVertexData eval u t) = vec2 u t \<and>
     normal (GenVertexData eval u t) =
       cross (vec3 (vec2.x (d X)) (vec2.x (d Y)) (vec2.x (d Z)))
             (vec3 (vec2.y (d X)) (vec2.y (d Y)) (vec2.y (d Z)))"
  using assms by (simp add: GenVertexData_def)

theorem GenVertexData_sample_witness:
  "GenVertexData (Noise_eval Noise_new) (1 / 4) (3 / 4) =
     \<lparr>position = vec3 (- 1 / 4) 0 (1 / 4), normal = vec3 0 (- 1) 0,
      texcoord = vec2 (1 / 4) (3 / 4)\<rparr>"
  using GenVertexData_sample [of "Noise_eval Noise_new" "1 / 4" "3 / 4",
      OF Noise_eval_flat]
  by (simp add: Dnum_sub_def Dnum_of_def minus_vec2_def cross_def VertexData.equality)

theorem Noise_terrain_witness:
  "f (B (fst (initA 32767 rand_seq (Noise_new, 0))) 0 1) \<le> 1 \<and>
   f (A (fst (initA 32767 rand_seq (Noise_new, 0))) 1 1) = 1 / sqrt 2 \<and>
   f (fst (Noise_eval (fst (initA 32767 rand_seq (Noise_new, 0)))
        (Dnum (1 / 4) (vec2 1 0)) (Dnum (3 / 4) (vec2 0 1)) (Dnum_of 0, Dnum_of 0, Dnum_of 0))) = - 1 / 4"
proof -
  have pos: "(0::int) < 32767" by simp
  have eq: "Noise_eval (fst (initA 32767 rand_seq (Noise_new, 0)))
        (Dnum (1 / 4) (vec2 1 0)) (Dnum (3 / 4) (vec2 0 1)) (Dnum_of 0, Dnum_of 0, Dnum_of 0) =
     (fst (Noise_eval (fst (initA 32767 rand_seq (Noise_new, 0)))
        (Dnum (1 / 4) (vec2 1 0)) (Dnum (3 / 4) (vec2 0 1)) (Dnum_of 0, Dnum_of 0, Dnum_of 0)),
      fst (snd (Noise_eval (fst (initA 32767 rand_seq (Noise_new, 0)))
        (Dnum (1 / 4) (vec2 1 0)) (Dnum (3 / 4) (vec2 0 1)) (Dnum_of 0, Dnum_of 0, Dnum_of 0))),
      snd (snd (Noise_eval (fst (initA 32767 rand_seq (Noise_new, 0)))
        (Dnum (1 / 4) (vec2 1 0)) (Dnum (3 / 4) (vec2 0 1)) (Dnum_of 0, Dnum_of 0, Dnum_of 0))))"
    by simp
  note t = Noise_terrain [OF pos rand_seq_range refl eq]
  from t have tables: "\<forall>i<n. \<forall>j<n.
        f (A (fst (initA 32767 rand_seq (Noise_new, 0))) i j) =
          (if i = 0 \<and> j = 0 then 0 else 1 / sqrt (real (i\<^sup>2 + j\<^sup>2))) \<and>
        0 \<le> f (B (fst (initA 32767 rand_seq (Noise_new, 0))) i j) \<and>
        f (B (fst (initA 32767 rand_seq (Noise_new, 0))) i j) \<le> 1"
    by (elim conjE)
  have n3: "0 < n" "1 < n" by (simp_all add: n_def)
  from t have xv: "f (fst (Noise_eval (fst (initA 32767 rand_seq (Noise_new, 0)))
        (Dnum (1 / 4) (vec2 1 0)) (Dnum (3 / 4) (vec2 0 1)) (Dnum_of 0, Dnum_of 0, Dnum_of 0))) =
      f (Dnum (1 / 4) (vec2 1 0)) - 0.5"
    by (elim conjE)
  from tables [rule_format, OF n3(1) n3(2)] tables [rule_format, OF n3(2) n3(2)] xv
  show ?thesis
    by simp
qed

section \<open>Tessellation\<close>


lemma create_j_eq:
  "create_j eval N M' i j vtx =
     vtx @ concat (map (\<lambda>j. [GenVertexData eval (real_of_int j / real_of_int M') (real_of_int i / real_of_int N),
                        GenVertexData eval (real_of_int j / real_of_int M') (real_of_int (i + 1) / real_of_int N)])
              [j..M'])"
proof (induction eval N M' i j vtx rule: create_j.induct)
  case (1 eval N M' i j vtx)
  show ?case
  proof (cases "j \<le> M'")
    case True
    then have "[j..M'] = j # [j + 1..M']"
      by (simp add: upto_rec1)
    with True "1.IH" show ?thesis
      by (subst create_j.simps) simp
  next
    case False
    then show ?thesis
      by (subst create_j.simps) simp
  qed
qed

lemma create_j_row: "create_j eval N M' i 0 vtx = vtx @ strip_spec eval N M' i"
  by (simp only: create_j_eq strip_spec_def)

lemma create_i_eq:
  "create_i eval N M' i vtx = vtx @ concat (map (strip_spec eval N M') [i..N - 1])"
proof (induction eval N M' i vtx rule: create_i.induct)
  case (1 eval N M' i vtx)
  show ?case
  proof (cases "i < N")
    case True
    then have "[i..N - 1] = i # [i + 1..N - 1]"
      by (simp add: upto_rec1)
    with True "1.IH" show ?thesis
      by (subst create_i.simps) (simp add: create_j_row)
  next
    case False
    then show ?thesis
      by (subst create_i.simps) simp
  qed
qed

lemma length_strip_spec: "length (strip_spec eval N M' i) = 2 * nat (M' + 1)"
  by (simp add: strip_spec_def length_concat comp_def sum_list_triv)

lemma take_drop_concat:
  "\<forall>ys \<in> set xss. length ys = k \<Longrightarrow> i < length xss \<Longrightarrow>
     take k (drop (i * k) (concat xss)) = xss ! i"
proof (induction xss arbitrary: i)
  case Nil
  then show ?case by simp
next
  case (Cons ys xss)
  show ?case
  proof (cases i)
    case 0
    with Cons.prems show ?thesis by simp
  next
    case (Suc i')
    with Cons.prems have "take k (drop (i' * k) (concat xss)) = xss ! i'"
      by (intro Cons.IH) auto
    with Suc Cons.prems show ?thesis by simp
  qed
qed

lemma length_concat_uniform:
  "\<forall>ys \<in> set xss. length ys = k \<Longrightarrow> length (concat xss) = length xss * k"
  by (induction xss) auto

lemma strip_spec_nth:
  assumes "0 \<le> j" and "j \<le> M'"
  shows "strip_spec eval N M' i ! nat (2 * j) =
           GenVertexData eval (real_of_int j / real_of_int M') (real_of_int i / real_of_int N)"
    and "strip_spec eval N M' i ! nat (2 * j + 1) =
           GenVertexData eval (real_of_int j / real_of_int M') (real_of_int (i + 1) / real_of_int N)"
proof -
  let ?h = "\<lambda>j. [GenVertexData eval (real_of_int j / real_of_int M') (real_of_int i / real_of_int N),
                  GenVertexData eval (real_of_int j / real_of_int M') (real_of_int (i + 1) / real_of_int N)]"
  let ?xss = "map ?h [0..M']"
  have len: "\<forall>ys \<in> set ?xss. length ys = 2" by auto
  have k: "nat j < length ?xss" using assms by simp
  have "take 2 (drop (nat j * 2) (concat ?xss)) = ?xss ! nat j"
    using take_drop_concat [OF len k] .
  also have "\<dots> = ?h j" using assms by (simp add: nth_upto)
  finally have td: "take 2 (drop (nat j * 2) (strip_spec eval N M' i)) = ?h j"
    by (simp add: strip_spec_def)
  have lenrow: "nat j * 2 + 1 < length (strip_spec eval N M' i)"
    using assms by (simp add: length_strip_spec)
  have a: "strip_spec eval N M' i ! (nat j * 2) = take 2 (drop (nat j * 2) (strip_spec eval N M' i)) ! 0"
    using lenrow by simp
  have b: "strip_spec eval N M' i ! (nat j * 2 + 1) = take 2 (drop (nat j * 2) (strip_spec eval N M' i)) ! 1"
    using lenrow by simp
  have e0: "nat (2 * j) = nat j * 2" using assms by (simp add: nat_mult_distrib)
  have e1: "nat (2 * j + 1) = nat j * 2 + 1" using assms by (simp add: nat_add_distrib nat_mult_distrib)
  show "strip_spec eval N M' i ! nat (2 * j) =
           GenVertexData eval (real_of_int j / real_of_int M') (real_of_int i / real_of_int N)"
    unfolding e0 a td by simp
  show "strip_spec eval N M' i ! nat (2 * j + 1) =
           GenVertexData eval (real_of_int j / real_of_int M') (real_of_int (i + 1) / real_of_int N)"
    unfolding e1 b td by simp
qed

lemma create_fields:
  assumes "0 \<le> N" and "N < 2 ^ 31" and "0 \<le> M'" and "(M' + 1) * 2 < 2 ^ 31"
  shows "nStrips (create eval N M') = N" and "nVtxPerStrip (create eval N M') = 2 * (M' + 1)"
    and "vtxData (create eval N M') = concat (map (strip_spec eval N M') [0..N - 1])"
  using assms by (simp_all add: create_def to_unsigned_def create_i_eq)

lemma create_length:
  assumes "0 \<le> N" and "N < 2 ^ 31" and "0 \<le> M'" and "(M' + 1) * 2 < 2 ^ 31"
  shows "length (vtxData (create eval N M')) = nat N * nat (2 * (M' + 1))"
proof -
  have "\<forall>ys \<in> set (map (strip_spec eval N M') [0..N - 1]). length ys = nat (2 * (M' + 1))"
    using assms by (auto simp: length_strip_spec nat_mult_distrib)
  from length_concat_uniform [OF this] assms show ?thesis
    by (simp add: create_fields)
qed

lemma create_strip:
  assumes "0 \<le> N" and "N < 2 ^ 31" and "0 \<le> M'" and "(M' + 1) * 2 < 2 ^ 31"
    and "0 \<le> i" and "i < N"
  shows "strip (create eval N M') (nat i) = strip_spec eval N M' i"
proof -
  let ?xss = "map (strip_spec eval N M') [0..N - 1]"
  have len: "\<forall>ys \<in> set ?xss. length ys = nat (2 * (M' + 1))"
    using assms by (auto simp: length_strip_spec nat_mult_distrib)
  have k: "nat i < length ?xss" using assms by simp
  have "take (nat (2 * (M' + 1))) (drop (nat i * nat (2 * (M' + 1))) (concat ?xss)) = ?xss ! nat i"
    using take_drop_concat [OF len k] .
  also have "\<dots> = strip_spec eval N M' i" using assms by (simp add: nth_upto)
  finally show ?thesis
    using assms by (simp add: strip_def create_fields)
qed


lemma texcoord_GenVertexData: "texcoord (GenVertexData eval u t) = vec2 u t"
  by (simp add: GenVertexData_def Let_def split: prod.split)

text \<open>
  C6. For \<open>N \<ge> 0\<close> and \<open>M > 0\<close> in the range of \<^verbatim>\<open>int\<close>, \<open>create\<close> makes \<open>N\<close> strips of
  \<open>2 * (M + 1)\<close> vertices; in strip \<open>i\<close> the vertices \<open>2 * j\<close> and \<open>2 * j + 1\<close> are the
  samples at \<open>(j / M, i / N)\<close> and \<open>(j / M, (i + 1) / N)\<close>; the second row of strip
  \<open>i - 1\<close> is the first row of strip \<open>i\<close>, at \<open>v = i / N\<close>.
\<close>

theorem create_tessellation:
  assumes "0 \<le> N" and "N < 2 ^ 31" and "0 < M'" and "(M' + 1) * 2 < 2 ^ 31"
  shows "nStrips (create eval N M') = N \<and>
     nVtxPerStrip (create eval N M') = 2 * (M' + 1) \<and>
     length (vtxData (create eval N M')) = nat N * nat (2 * (M' + 1)) \<and>
     (\<forall>i. 0 \<le> i \<and> i < N \<longrightarrow>
        length (strip (create eval N M') (nat i)) = nat (2 * (M' + 1)) \<and>
        (\<forall>j. 0 \<le> j \<and> j \<le> M' \<longrightarrow>
           strip (create eval N M') (nat i) ! nat (2 * j) =
             GenVertexData eval (real_of_int j / real_of_int M') (real_of_int i / real_of_int N) \<and>
           strip (create eval N M') (nat i) ! nat (2 * j + 1) =
             GenVertexData eval (real_of_int j / real_of_int M')
               (real_of_int (i + 1) / real_of_int N))) \<and>
     (\<forall>i j. 0 < i \<and> i < N \<and> 0 \<le> j \<and> j \<le> M' \<longrightarrow>
        texcoord (strip (create eval N M') (nat (i - 1)) ! nat (2 * j + 1)) =
          vec2 (real_of_int j / real_of_int M') (real_of_int i / real_of_int N) \<and>
        strip (create eval N M') (nat (i - 1)) ! nat (2 * j + 1) =
          strip (create eval N M') (nat i) ! nat (2 * j))"
proof -
  have M0: "0 \<le> M'" using assms(3) by simp
  note fields = create_fields [OF assms(1,2) M0 assms(4)]
  note len = create_length [OF assms(1,2) M0 assms(4)]
  have rows: "strip (create eval N M') (nat i) = strip_spec eval N M' i" if "0 \<le> i" and "i < N" for i
    using create_strip [OF assms(1,2) M0 assms(4) that] .
  have part1: "\<forall>i. 0 \<le> i \<and> i < N \<longrightarrow>
        length (strip (create eval N M') (nat i)) = nat (2 * (M' + 1)) \<and>
        (\<forall>j. 0 \<le> j \<and> j \<le> M' \<longrightarrow>
           strip (create eval N M') (nat i) ! nat (2 * j) =
             GenVertexData eval (real_of_int j / real_of_int M') (real_of_int i / real_of_int N) \<and>
           strip (create eval N M') (nat i) ! nat (2 * j + 1) =
             GenVertexData eval (real_of_int j / real_of_int M')
               (real_of_int (i + 1) / real_of_int N))"
  proof (intro allI impI conjI)
    fix i assume i: "0 \<le> i \<and> i < N"
    then have r: "strip (create eval N M') (nat i) = strip_spec eval N M' i"
      using rows by simp
    show "length (strip (create eval N M') (nat i)) = nat (2 * (M' + 1))"
      using M0 by (simp add: r length_strip_spec nat_mult_distrib)
    fix j assume j: "0 \<le> j \<and> j \<le> M'"
    then have j0: "0 \<le> j" and jM: "j \<le> M'" by simp_all
    show "strip (create eval N M') (nat i) ! nat (2 * j) =
        GenVertexData eval (real_of_int j / real_of_int M') (real_of_int i / real_of_int N)"
      unfolding r by (rule strip_spec_nth(1) [OF j0 jM])
    show "strip (create eval N M') (nat i) ! nat (2 * j + 1) =
        GenVertexData eval (real_of_int j / real_of_int M') (real_of_int (i + 1) / real_of_int N)"
      unfolding r by (rule strip_spec_nth(2) [OF j0 jM])
  qed
  have part2: "\<forall>i j. 0 < i \<and> i < N \<and> 0 \<le> j \<and> j \<le> M' \<longrightarrow>
        texcoord (strip (create eval N M') (nat (i - 1)) ! nat (2 * j + 1)) =
          vec2 (real_of_int j / real_of_int M') (real_of_int i / real_of_int N) \<and>
        strip (create eval N M') (nat (i - 1)) ! nat (2 * j + 1) =
          strip (create eval N M') (nat i) ! nat (2 * j)"
  proof (intro allI impI)
    fix i j assume h: "0 < i \<and> i < N \<and> 0 \<le> j \<and> j \<le> M'"
    then have j0: "0 \<le> j" and jM: "j \<le> M'" by simp_all
    from h have r1: "strip (create eval N M') (nat (i - 1)) = strip_spec eval N M' (i - 1)"
      using rows [of "i - 1"] by simp
    from h have r2: "strip (create eval N M') (nat i) = strip_spec eval N M' i"
      using rows [of i] by simp
    have a: "strip_spec eval N M' (i - 1) ! nat (2 * j + 1) =
        GenVertexData eval (real_of_int j / real_of_int M') (real_of_int i / real_of_int N)"
      using strip_spec_nth(2) [OF j0 jM, of eval N "i - 1"] by simp
    have b: "strip_spec eval N M' i ! nat (2 * j) =
        GenVertexData eval (real_of_int j / real_of_int M') (real_of_int i / real_of_int N)"
      by (rule strip_spec_nth(1) [OF j0 jM])
    show "texcoord (strip (create eval N M') (nat (i - 1)) ! nat (2 * j + 1)) =
          vec2 (real_of_int j / real_of_int M') (real_of_int i / real_of_int N) \<and>
        strip (create eval N M') (nat (i - 1)) ! nat (2 * j + 1) =
          strip (create eval N M') (nat i) ! nat (2 * j)"
      unfolding r1 r2 a b by (simp add: texcoord_GenVertexData)
  qed
  from fields(1,2) len part1 part2 show ?thesis
    by (intro conjI)
qed

theorem create_tessellation_witness:
  "nStrips (create (Noise_eval Noise_new) 2 1) = 2 \<and>
   nVtxPerStrip (create (Noise_eval Noise_new) 2 1) = 4 \<and>
   length (vtxData (create (Noise_eval Noise_new) 2 1)) = 8 \<and>
   strip (create (Noise_eval Noise_new) 2 1) 1 ! 2 = GenVertexData (Noise_eval Noise_new) 1 (1 / 2) \<and>
   strip (create (Noise_eval Noise_new) 2 1) 1 ! 3 = GenVertexData (Noise_eval Noise_new) 1 1 \<and>
   strip (create (Noise_eval Noise_new) 2 1) 0 ! 3 = strip (create (Noise_eval Noise_new) 2 1) 1 ! 2"
proof -
  have h: "(0::int) \<le> 2" "(2::int) < 2 ^ 31" "(0::int) < 1" "((1::int) + 1) * 2 < 2 ^ 31"
    by simp_all
  note t = create_tessellation [OF h, of "Noise_eval Noise_new"]
  from t have c: "nStrips (create (Noise_eval Noise_new) 2 1) = 2 \<and>
     nVtxPerStrip (create (Noise_eval Noise_new) 2 1) = 4 \<and>
     length (vtxData (create (Noise_eval Noise_new) 2 1)) = 8"
    by simp
  from t have p1: "\<forall>i. 0 \<le> i \<and> i < 2 \<longrightarrow>
        length (strip (create (Noise_eval Noise_new) 2 1) (nat i)) = nat (2 * (1 + 1)) \<and>
        (\<forall>j. 0 \<le> j \<and> j \<le> 1 \<longrightarrow>
           strip (create (Noise_eval Noise_new) 2 1) (nat i) ! nat (2 * j) =
             GenVertexData (Noise_eval Noise_new) (real_of_int j / real_of_int 1)
               (real_of_int i / real_of_int 2) \<and>
           strip (create (Noise_eval Noise_new) 2 1) (nat i) ! nat (2 * j + 1) =
             GenVertexData (Noise_eval Noise_new) (real_of_int j / real_of_int 1)
               (real_of_int (i + 1) / real_of_int 2))"
    by (elim conjE)
  from t have p2: "\<forall>i j. 0 < i \<and> i < 2 \<and> 0 \<le> j \<and> j \<le> 1 \<longrightarrow>
        texcoord (strip (create (Noise_eval Noise_new) 2 1) (nat (i - 1)) ! nat (2 * j + 1)) =
          vec2 (real_of_int j / real_of_int 1) (real_of_int i / real_of_int 2) \<and>
        strip (create (Noise_eval Noise_new) 2 1) (nat (i - 1)) ! nat (2 * j + 1) =
          strip (create (Noise_eval Noise_new) 2 1) (nat i) ! nat (2 * j)"
    by (elim conjE)
  have i1: "(0::int) \<le> 1 \<and> (1::int) < 2" and j1: "(0::int) \<le> 1 \<and> (1::int) \<le> 1"
    and ij: "(0::int) < 1 \<and> (1::int) < 2 \<and> (0::int) \<le> 1 \<and> (1::int) \<le> 1"
    by simp_all
  from p1 [rule_format, OF i1, THEN conjunct2, rule_format, OF j1] p2 [rule_format, OF ij] c
  show ?thesis
    by (simp add: numeral_3_eq_3 numeral_2_eq_2 eval_nat_numeral)
qed

section \<open>The animation step\<close>

lemma SetModelingTransform_fields:
  "scale (SetModelingTransform rot b) = scale b"
  "translation (SetModelingTransform rot b) = translation b"
  "rotationAxis (SetModelingTransform rot b) = rotationAxis b"
  "rotationAngle (SetModelingTransform rot b) = rotationAngle b"
  "m (SetModelingTransform rot b) = m b"
  "g (SetModelingTransform rot b) = g b"
  "v (SetModelingTransform rot b) = v b"
  "ro (SetModelingTransform rot b) = ro b"
  "s (SetModelingTransform rot b) = s b"
  "D (SetModelingTransform rot b) = D b"
  "l0 (SetModelingTransform rot b) = l0 b"
  "w (SetModelingTransform rot b) = w b"
  "kappa (SetModelingTransform rot b) = kappa b"
  by (simp_all add: SetModelingTransform_def)

lemma Animate_translation:
  "translation (Animate rot True ts te b) = translation b + (te - ts) *\<^sub>R v b"
  by (simp add: Animate_def Let_def SetModelingTransform_fields)

lemma Animate_v:
  "v (Animate rot True ts te b) =
     vec3_div (m b *\<^sub>R v b + (te - ts) *\<^sub>R
        (m b *\<^sub>R g b + spring_force b (tether_point rot b) - ro b *\<^sub>R v b)) (m b)"
  by (simp add: Animate_def Let_def SetModelingTransform_fields spring_force_def)

lemma Animate_w:
  "w (Animate rot True ts te b) =
     (1 / (m b * (vec3.x (scale b) * vec3.x (scale b) + vec3.y (scale b) * vec3.y (scale b)) / 12)) *\<^sub>R
      ((m b * (vec3.x (scale b) * vec3.x (scale b) + vec3.y (scale b) * vec3.y (scale b)) / 12) *\<^sub>R w b +
       (te - ts) *\<^sub>R
         (cross (tether_point rot b - (translation b + (te - ts) *\<^sub>R v b))
            (spring_force b (tether_point rot b)) - kappa b *\<^sub>R w b))"
  by (simp add: Animate_def Let_def SetModelingTransform_fields spring_force_def)

lemma Animate_rotationAngle:
  "rotationAngle (Animate rot True ts te b) =
     rotationAngle b - dot (rotationAxis b) (w (Animate rot True ts te b)) * (te - ts)"
  by (simp add: Animate_def Let_def SetModelingTransform_fields)

lemma length_vec3_axis [simp]:
  "length_vec3 (vec3 a 0 0) = \<bar>a\<bar>"
  "length_vec3 (vec3 0 a 0) = \<bar>a\<bar>"
  "length_vec3 (vec3 0 0 a) = \<bar>a\<bar>"
  by (simp_all add: length_vec3_def dot_def)

lemmas vec_simps = zero_vec3_def plus_vec3_def minus_vec3_def uminus_vec3_def scaleR_vec3_def
  vec3_div_def plus_vec4_def scaleR_vec4_def dot_def cross_def

lemmas mat_simps = vec4_mat4_def mat4_mul_def TranslateMatrix_def ScaleMatrix_def
  RotationMatrix_def normalize_def Let_def

lemma tether_cube: "tether_point RotationMatrix cubeObject = vec3 0 (17 / 4) 0"
  by (simp add: tether_point_def SetModelingTransform_def cubeObject_def mat_simps vec_simps)

lemma tether_cube2:
  "tether_point RotationMatrix (cubeObject\<lparr>translation := vec3 0 (3 / 4) 0\<rparr>) = vec3 0 0 0"
  by (simp add: tether_point_def SetModelingTransform_def cubeObject_def mat_simps vec_simps)

text \<open>
  C1. In an active step the spring force is the zero vector when the distance from the
  anchor \<open>s\<close> to the tether point \<open>l\<close> is at most the natural length \<open>l0\<close>, and
  \<open>D * (s - l) * (|s - l| - l0)\<close> when it is greater; this force is the one that enters
  the new velocity.
\<close>

theorem spring_force_threshold:
  "(length_vec3 (s b - tether_point rot b) \<le> l0 b \<longrightarrow>
      spring_force b (tether_point rot b) = 0) \<and>
   (length_vec3 (s b - tether_point rot b) > l0 b \<longrightarrow>
      spring_force b (tether_point rot b) =
        (length_vec3 (s b - tether_point rot b) - l0 b) *\<^sub>R (D b *\<^sub>R (s b - tether_point rot b))) \<and>
   (m b \<noteq> 0 \<longrightarrow>
      v (Animate rot True ts te b) =
        vec3_div (m b *\<^sub>R v b + (te - ts) *\<^sub>R
          (m b *\<^sub>R g b + spring_force b (tether_point rot b) - ro b *\<^sub>R v b)) (m b))"
  using Animate_v [of rot ts te b] by (simp add: spring_force_def)

theorem spring_force_threshold_witness:
  "length_vec3 (s cubeObject - tether_point RotationMatrix cubeObject) \<le> l0 cubeObject \<and>
   spring_force cubeObject (tether_point RotationMatrix cubeObject) = vec3 0 0 0 \<and>
   m cubeObject \<noteq> 0 \<and>
   v (Animate RotationMatrix True 0 (1 / 10) cubeObject) = vec3 (97 / 100) (- 1 / 2) 0 \<and>
   length_vec3 (s (cubeObject\<lparr>translation := vec3 0 (3 / 4) 0\<rparr>) -
      tether_point RotationMatrix (cubeObject\<lparr>translation := vec3 0 (3 / 4) 0\<rparr>))
     > l0 (cubeObject\<lparr>translation := vec3 0 (3 / 4) 0\<rparr>) \<and>
   spring_force (cubeObject\<lparr>translation := vec3 0 (3 / 4) 0\<rparr>)
      (tether_point RotationMatrix (cubeObject\<lparr>translation := vec3 0 (3 / 4) 0\<rparr>)) = vec3 0 10 0"
  using spring_force_threshold [of cubeObject RotationMatrix 0 "1 / 10"]
    spring_force_threshold [of "cubeObject\<lparr>translation := vec3 0 (3 / 4) 0\<rparr>" RotationMatrix 0 "1 / 10"]
  apply (simp only: tether_cube tether_cube2)
  apply (simp add: cubeObject_def vec_simps)
  done


text \<open>
  C2. While \<open>goon\<close> is false, \<open>Animate\<close> returns the body as it was, every field
  included.
\<close>

theorem Animate_before_start: "Animate rot False ts te b = b"
  by (simp add: Animate_def)

text \<open>
  C8. An active step moves the body by the velocity it had at the start of the step, and
  then computes the new velocity as \<open>(m * v + F * dt) / m\<close> from the force
  \<open>F = m * g + K - ro * v\<close>. With mass 1, gravity \<open>(0, -5, 0)\<close>, no velocity, stiffness 0
  and \<open>dt = 0.1\<close>, the new velocity is \<open>(0, -0.5, 0)\<close> and the translation is unchanged.
\<close>

theorem Animate_linear:
  "(m b \<noteq> 0 \<longrightarrow>
      translation (Animate rot True ts te b) = translation b + (te - ts) *\<^sub>R v b \<and>
      v (Animate rot True ts te b) =
        vec3_div (m b *\<^sub>R v b + (te - ts) *\<^sub>R
          (m b *\<^sub>R g b + spring_force b (tether_point rot b) - ro b *\<^sub>R v b)) (m b)) \<and>
   (m b = 1 \<and> g b = vec3 0 (- 5) 0 \<and> v b = vec3 0 0 0 \<and> D b = 0 \<and> te - ts = 1 / 10 \<longrightarrow>
      v (Animate rot True ts te b) = vec3 0 (- 1 / 2) 0 \<and>
      translation (Animate rot True ts te b) = translation b)"
proof -
  have "translation b + (te - ts) *\<^sub>R vec3 0 0 0 = translation b"
    by (simp add: plus_vec3_def scaleR_vec3_def)
  moreover have "D b = 0 \<Longrightarrow> spring_force b (tether_point rot b) = vec3 0 0 0"
    by (simp add: spring_force_def scaleR_vec3_def zero_vec3_def)
  ultimately show ?thesis
    using Animate_v [of rot ts te b] Animate_translation [of rot ts te b]
    by (auto simp add: vec_simps)
qed

theorem Animate_linear_witness:
  "m (cubeObject\<lparr>v := vec3 0 0 0, D := 0\<rparr>) = 1 \<and>
   g (cubeObject\<lparr>v := vec3 0 0 0, D := 0\<rparr>) = vec3 0 (- 5) 0 \<and>
   v (cubeObject\<lparr>v := vec3 0 0 0, D := 0\<rparr>) = vec3 0 0 0 \<and>
   D (cubeObject\<lparr>v := vec3 0 0 0, D := 0\<rparr>) = 0 \<and>
   v (Animate RotationMatrix True 0 (1 / 10) (cubeObject\<lparr>v := vec3 0 0 0, D := 0\<rparr>)) =
     vec3 0 (- 1 / 2) 0 \<and>
   translation (Animate RotationMatrix True 0 (1 / 10) (cubeObject\<lparr>v := vec3 0 0 0, D := 0\<rparr>)) =
     vec3 0 5 0"
proof -
  let ?b = "cubeObject\<lparr>v := vec3 0 0 0, D := 0\<rparr>"
  have h: "m ?b = 1 \<and> g ?b = vec3 0 (- 5) 0 \<and> v ?b = vec3 0 0 0 \<and> D ?b = 0 \<and>
      (1 / 10 :: real) - 0 = 1 / 10"
    by (simp add: cubeObject_def)
  from Animate_linear [of ?b RotationMatrix 0 "1 / 10", THEN conjunct2, rule_format, OF h] h
  show ?thesis
    by (simp add: cubeObject_def)
qed

lemma scaleR_inverse_vec3: "(1 / c) *\<^sub>R a = vec3_div a c"
  by (simp add: scaleR_vec3_def vec3_div_def)

text \<open>
  C9. An active step computes the moment of inertia \<open>I = m * (scale.x\<^sup>2 + scale.y\<^sup>2) / 12\<close>,
  the torque \<open>(l - translation) \<times> K - kappa * w\<close> with the translation that the step has
  just updated, the new angular velocity \<open>(I * w + torque * dt) / I\<close>, and the new angle
  \<open>rotationAngle - (rotationAxis \<bullet> w) * dt\<close> with the new angular velocity: the angle
  depends on the angular velocity only through its product with the axis.
\<close>

theorem Animate_angular:
  "m b * ((vec3.x (scale b))\<^sup>2 + (vec3.y (scale b))\<^sup>2) / 12 \<noteq> 0 \<longrightarrow>
   w (Animate rot True ts te b) =
     vec3_div
       ((m b * ((vec3.x (scale b))\<^sup>2 + (vec3.y (scale b))\<^sup>2) / 12) *\<^sub>R w b +
        (te - ts) *\<^sub>R
          (cross (tether_point rot b - (translation b + (te - ts) *\<^sub>R v b))
             (spring_force b (tether_point rot b)) - kappa b *\<^sub>R w b))
       (m b * ((vec3.x (scale b))\<^sup>2 + (vec3.y (scale b))\<^sup>2) / 12) \<and>
   rotationAngle (Animate rot True ts te b) =
     rotationAngle b - dot (rotationAxis b) (w (Animate rot True ts te b)) * (te - ts)"
  using Animate_rotationAngle [of rot ts te b]
  by (simp only: Animate_w scaleR_inverse_vec3 power2_eq_square) simp

theorem Animate_angular_witness:
  "m (cubeObject\<lparr>translation := vec3 0 (3 / 4) 0\<rparr>) *
     ((vec3.x (scale (cubeObject\<lparr>translation := vec3 0 (3 / 4) 0\<rparr>)))\<^sup>2 +
      (vec3.y (scale (cubeObject\<lparr>translation := vec3 0 (3 / 4) 0\<rparr>)))\<^sup>2) / 12 \<noteq> 0 \<and>
   w (Animate RotationMatrix True 0 (1 / 10) (cubeObject\<lparr>translation := vec3 0 (3 / 4) 0\<rparr>)) =
     vec3 0 0 (- 24 / 65) \<and>
   rotationAngle (Animate RotationMatrix True 0 (1 / 10)
     (cubeObject\<lparr>translation := vec3 0 (3 / 4) 0\<rparr>)) = 12 / 325"
proof -
  let ?b = "cubeObject\<lparr>translation := vec3 0 (3 / 4) 0\<rparr>"
  have h: "m ?b * ((vec3.x (scale ?b))\<^sup>2 + (vec3.y (scale ?b))\<^sup>2) / 12 \<noteq> 0"
    by (simp add: cubeObject_def power2_eq_square)
  have K: "spring_force ?b (vec3 0 0 0) = vec3 0 10 0"
    by (simp add: spring_force_def cubeObject_def vec_simps)
  from Animate_angular [of ?b RotationMatrix 0 "1 / 10", rule_format, OF h] h
  show ?thesis
    by (simp add: tether_cube2 K) (simp add: cubeObject_def vec_simps power2_eq_square)
qed

text \<open>
  C10. A call of \<open>Animate\<close>, active or not, changes at most the translation, the
  velocity, the angular velocity, the rotation angle and the two matrices; the mass,
  gravity, both drag coefficients, the anchor, the stiffness, the natural length, the
  scale and the rotation axis are as before.
\<close>

theorem Animate_frame:
  "Animate rot goon ts te b =
     b\<lparr>translation := translation (Animate rot goon ts te b),
       rotationAngle := rotationAngle (Animate rot goon ts te b),
       v := v (Animate rot goon ts te b),
       M := M (Animate rot goon ts te b),
       Minv := Minv (Animate rot goon ts te b),
       w := w (Animate rot goon ts te b)\<rparr> \<and>
   m (Animate rot goon ts te b) = m b \<and> g (Animate rot goon ts te b) = g b \<and>
   ro (Animate rot goon ts te b) = ro b \<and> kappa (Animate rot goon ts te b) = kappa b \<and>
   s (Animate rot goon ts te b) = s b \<and> D (Animate rot goon ts te b) = D b \<and>
   l0 (Animate rot goon ts te b) = l0 b \<and> scale (Animate rot goon ts te b) = scale b \<and>
   rotationAxis (Animate rot goon ts te b) = rotationAxis b"
  by (simp add: Animate_def Let_def SetModelingTransform_def)

end
